theory Spec2Isabelle
  imports Main "HOL-Library.Word"
begin

section \<open>Data model of zbft.go\<close>

text \<open>
  The types of the packages zbft.go imports (blocks, block headers, transactions,
  public keys, the blockchain handle, hashers, loggers) are declared outside the
  repository; they are type parameters here:
  \<open>'blk\<close> for \<^verbatim>\<open>*bcpb.Block\<close>, \<open>'hdr\<close> for \<^verbatim>\<open>*bcpb.BlockHeader\<close>, \<open>'tx\<close> for
  \<^verbatim>\<open>*bcpb.Tx\<close>, \<open>'key\<close> for a public key, \<open>'bc\<close> for \<^verbatim>\<open>*blockchain.Blockchain\<close>,
  \<open>'hs\<close> for a hasher and \<open>'lg\<close> for \<^verbatim>\<open>*log.Logger\<close>.
\<close>

text \<open>\<^verbatim>\<open>time.Duration\<close> is a signed 64-bit count of nanoseconds.\<close>

type_synonym Duration = "64 word"

text \<open>The message kinds of \<^verbatim>\<open>zbftpb.Message\<close>. zbft.go names \<^verbatim>\<open>Message_BOOTSTRAP\<close>; the
  other three kinds are the ones the specification lists.\<close>

datatype Message_Type = BOOTSTRAP | PROPOSE | PREPARE | COMMIT

text \<open>\<^verbatim>\<open>zbftpb.Message\<close>, with the four fields zbft.go fills in.\<close>

record ('blk, 'tx, 'key) Message =
  Type :: Message_Type
  Block :: 'blk
  Txs :: "'tx list"
  From :: 'key

text \<open>\<^verbatim>\<open>keypair.KeyPair\<close>: zbft.go reads its \<^verbatim>\<open>PublicKey\<close> field.\<close>

record 'key keypair =
  PublicKey :: 'key

text \<open>\<^verbatim>\<open>configChange{typ, data}\<close> (fields \<open>cc_typ\<close>, \<open>cc_data\<close>); zbft.go builds it with \<^verbatim>\<open>confChangeTimeout\<close> and a duration.\<close>

datatype confChangeType = confChangeTimeout

record configChange =
  cc_typ :: confChangeType
  cc_data :: Duration

text \<open>The error value the timer case of the loop passes to its handler.\<close>

datatype zbft_error = errTimedOut

text \<open>
  The \<^verbatim>\<open>TxStore\<close> interface has the single method \<^verbatim>\<open>GetTXO\<close>. \<^verbatim>\<open>z.fsm.Init(z.bc)\<close> converts
  the blockchain handle to this interface; the wrapper records the conversion.
\<close>

datatype 'bc TxStore = AsTxStore 'bc

text \<open>
  The \<^verbatim>\<open>FSM\<close> interface is implemented outside the engine. What the engine does to it is
  the sequence of method calls it makes, so an FSM value is the list of calls it has
  received, oldest first.
\<close>

datatype ('bc, 'tx, 'hdr) FSM_call =
    Init "'bc TxStore"
  | Prepare "'tx list"
  | Execute "'tx list" 'hdr bool

text \<open>
  A Go channel: its capacity (fixed by \<^verbatim>\<open>make\<close>) and the values buffered in it, oldest
  first. A send on a full channel and a receive on an empty one do not proceed.
\<close>

record 'a chan =
  cap :: nat
  buf :: "'a list"

definition make_chan :: "nat \<Rightarrow> 'a chan" where
  "make_chan n = \<lparr>cap = n, buf = []\<rparr>"

definition chan_send :: "'a \<Rightarrow> 'a chan \<Rightarrow> 'a chan option" where
  "chan_send x c = (if length (buf c) < cap c then Some (c\<lparr>buf := buf c @ [x]\<rparr>) else None)"

definition chan_recv :: "'a chan \<Rightarrow> ('a \<times> 'a chan) option" where
  "chan_recv c = (case buf c of [] \<Rightarrow> None | x # xs \<Rightarrow> Some (x, c\<lparr>buf := xs\<rparr>))"

text \<open>\<^verbatim>\<open>*time.Timer\<close>: the channel \<^verbatim>\<open>C\<close> on which expiry is delivered (capacity 1), and the
  deadline it is armed for, if any.\<close>

record Timer =
  timerC :: "int chan"
  deadline :: "int option"

text \<open>An entry of the \<^verbatim>\<open>exec\<close> channel: a finalized block and its transactions.\<close>

record ('blk, 'tx) execBlock =
  eb_block :: 'blk
  eb_txs :: "'tx list"

text \<open>
  The \<^verbatim>\<open>zbft\<close> struct. Its declaration is not in zbft.go; the fields are the ones zbft.go
  reads or writes. \<open>futs\<close> is the result registry (\<open>'fu\<close>), and \<open>rest\<close> stands for every
  field zbft.go never mentions (the current round, the votes). Pointers that zbft.go
  dereferences and that may be nil are options: \<open>kp\<close>, \<open>fsm\<close>, \<open>timer\<close>.
\<close>

record ('blk, 'tx, 'key, 'bc, 'hdr, 'hs, 'lg, 'fu, 'r) zbft =
  bc :: 'bc
  hasher :: 'hs
  kp :: "'key keypair option"
  roundTimeout :: Duration
  msgBcast :: "('blk, 'tx, 'key) Message chan"
  msgIn :: "('blk, 'tx, 'key) Message chan"
  txCollect :: "'tx list chan"
  exec :: "('blk, 'tx) execBlock chan"
  confCh :: "configChange chan"
  fsm :: "('bc, 'tx, 'hdr) FSM_call list option"
  log :: 'lg
  futs :: 'fu
  txq :: "'tx list chan"
  timer :: "Timer option"
  rest :: 'r

text \<open>
  How a call ends: it returns a value, it is suspended on a channel operation that
  cannot proceed, or it panics on a nil dereference. Every operation yields the outcome
  together with the state reached.
\<close>

datatype 'a call = Returned 'a | Suspended | Panicked

section \<open>The public operations\<close>

text \<open>
  Modelled from the spec: \<^verbatim>\<open>zbft.broadcast\<close> is not in zbft.go. The specification's
  Outbound Broadcast Queue is the bounded channel \<^verbatim>\<open>msgBcast\<close> that
  \<^verbatim>\<open>BroadcastMessages\<close> hands to the network layer; broadcasting a message is a send on it.
\<close>

definition broadcast ::
  "('blk, 'tx, 'key) Message \<Rightarrow> ('blk, 'tx, 'key, 'bc, 'hdr, 'hs, 'lg, 'fu, 'r) zbft
    \<Rightarrow> unit call \<times> ('blk, 'tx, 'key, 'bc, 'hdr, 'hs, 'lg, 'fu, 'r) zbft" where
  "broadcast msg z =
     (case chan_send msg (msgBcast z) of
        None \<Rightarrow> (Suspended, z)
      | Some c \<Rightarrow> (Returned (), z\<lparr>msgBcast := c\<rparr>))"

text \<open>\<^verbatim>\<open>func (z *zbft) SetTimeout(d time.Duration)\<close>\<close>

definition SetTimeout ::
  "Duration \<Rightarrow> ('blk, 'tx, 'key, 'bc, 'hdr, 'hs, 'lg, 'fu, 'r) zbft
    \<Rightarrow> unit call \<times> ('blk, 'tx, 'key, 'bc, 'hdr, 'hs, 'lg, 'fu, 'r) zbft" where
  "SetTimeout d z =
     (case chan_send \<lparr>cc_typ = confChangeTimeout, cc_data = d\<rparr> (confCh z) of
        None \<Rightarrow> (Suspended, z)
      | Some c \<Rightarrow> (Returned (), z\<lparr>confCh := c\<rparr>))"

text \<open>
  \<^verbatim>\<open>func (z *zbft) SetGenesis(blk *bcpb.Block, txs []*bcpb.Tx) *Future\<close>.
  The registry's \<^verbatim>\<open>addTxsActive\<close> is not in zbft.go: it is the parameter \<open>addTxsActive\<close>,
  a method of \<^verbatim>\<open>z.futs\<close> that returns the future and the registry it leaves.
\<close>

definition SetGenesis ::
  "('tx list \<Rightarrow> 'fu \<Rightarrow> 'fut \<times> 'fu) \<Rightarrow> 'blk \<Rightarrow> 'tx list
    \<Rightarrow> ('blk, 'tx, 'key, 'bc, 'hdr, 'hs, 'lg, 'fu, 'r) zbft
    \<Rightarrow> 'fut call \<times> ('blk, 'tx, 'key, 'bc, 'hdr, 'hs, 'lg, 'fu, 'r) zbft" where
  "SetGenesis addTxsActive blk txs z =
     (let (fut, fs) = addTxsActive txs (futs z);
          z1 = z\<lparr>futs := fs\<rparr>
      in case kp z1 of
           None \<Rightarrow> (Panicked, z1)
         | Some k \<Rightarrow>
             (let msg = \<lparr>Type = BOOTSTRAP, Block = blk, Txs = txs, From = PublicKey k\<rparr>
              in case chan_send msg (msgIn z1) of
                   None \<Rightarrow> (Suspended, z1)
                 | Some c \<Rightarrow>
                     (case broadcast msg (z1\<lparr>msgIn := c\<rparr>) of
                        (Returned u, z3) \<Rightarrow> (Returned fut, z3)
                      | (Suspended, z3) \<Rightarrow> (Suspended, z3)
                      | (Panicked, z3) \<Rightarrow> (Panicked, z3))))"

text \<open>\<^verbatim>\<open>func (z *zbft) Step(msg zbftpb.Message)\<close>\<close>

definition Step ::
  "('blk, 'tx, 'key) Message \<Rightarrow> ('blk, 'tx, 'key, 'bc, 'hdr, 'hs, 'lg, 'fu, 'r) zbft
    \<Rightarrow> unit call \<times> ('blk, 'tx, 'key, 'bc, 'hdr, 'hs, 'lg, 'fu, 'r) zbft" where
  "Step msg z =
     (case chan_send msg (msgIn z) of
        None \<Rightarrow> (Suspended, z)
      | Some c \<Rightarrow> (Returned (), z\<lparr>msgIn := c\<rparr>))"

text \<open>\<^verbatim>\<open>func (z *zbft) ProposeTxs(txs []*bcpb.Tx) *Future\<close>\<close>

definition ProposeTxs ::
  "('tx list \<Rightarrow> 'fu \<Rightarrow> 'fut \<times> 'fu) \<Rightarrow> 'tx list
    \<Rightarrow> ('blk, 'tx, 'key, 'bc, 'hdr, 'hs, 'lg, 'fu, 'r) zbft
    \<Rightarrow> 'fut call \<times> ('blk, 'tx, 'key, 'bc, 'hdr, 'hs, 'lg, 'fu, 'r) zbft" where
  "ProposeTxs addTxsActive txs z =
     (let (fut, fs) = addTxsActive txs (futs z);
          z1 = z\<lparr>futs := fs\<rparr>
      in case chan_send txs (txCollect z1) of
           None \<Rightarrow> (Suspended, z1)
         | Some c \<Rightarrow> (Returned fut, z1\<lparr>txCollect := c\<rparr>))"

text \<open>\<^verbatim>\<open>func (z *zbft) BroadcastMessages() <-chan zbftpb.Message\<close>\<close>

definition BroadcastMessages ::
  "('blk, 'tx, 'key, 'bc, 'hdr, 'hs, 'lg, 'fu, 'r) zbft \<Rightarrow> ('blk, 'tx, 'key) Message chan" where
  "BroadcastMessages z = msgBcast z"

section \<open>The core loop of Start\<close>

text \<open>
  The handlers the loop calls (\<^verbatim>\<open>handleReadyTxs\<close>, \<^verbatim>\<open>handleMessage\<close>,
  \<^verbatim>\<open>handleErrorAndReset\<close>, \<^verbatim>\<open>handleConfigChange\<close>) are not in zbft.go. The loop is
  modelled for any four handlers; a handler may return, be suspended on a channel or
  panic, like every other call.
\<close>

record ('blk, 'tx, 'key, 'bc, 'hdr, 'hs, 'lg, 'fu, 'r) handlers =
  handleReadyTxs ::
    "'tx list
      \<Rightarrow> ('blk, 'tx, 'key, 'bc, 'hdr, 'hs, 'lg, 'fu, 'r) zbft
      \<Rightarrow> unit call \<times> ('blk, 'tx, 'key, 'bc, 'hdr, 'hs, 'lg, 'fu, 'r) zbft"
  handleMessage ::
    "('blk, 'tx, 'key) Message
      \<Rightarrow> ('blk, 'tx, 'key, 'bc, 'hdr, 'hs, 'lg, 'fu, 'r) zbft
      \<Rightarrow> unit call \<times> ('blk, 'tx, 'key, 'bc, 'hdr, 'hs, 'lg, 'fu, 'r) zbft"
  handleErrorAndReset ::
    "zbft_error
      \<Rightarrow> ('blk, 'tx, 'key, 'bc, 'hdr, 'hs, 'lg, 'fu, 'r) zbft
      \<Rightarrow> unit call \<times> ('blk, 'tx, 'key, 'bc, 'hdr, 'hs, 'lg, 'fu, 'r) zbft"
  handleConfigChange ::
    "configChange
      \<Rightarrow> ('blk, 'tx, 'key, 'bc, 'hdr, 'hs, 'lg, 'fu, 'r) zbft
      \<Rightarrow> unit call \<times> ('blk, 'tx, 'key, 'bc, 'hdr, 'hs, 'lg, 'fu, 'r) zbft"

text \<open>The four cases of the \<^verbatim>\<open>select\<close> statement, in source order: \<^verbatim>\<open>z.txq\<close>, \<^verbatim>\<open>z.msgIn\<close>,
  \<^verbatim>\<open>z.timer.C\<close>, \<^verbatim>\<open>z.confCh\<close>.\<close>

datatype source = FromTxq | FromMsgIn | FromTimer | FromConfCh

text \<open>The number of values waiting on the channel of a case.\<close>

fun pending ::
  "source
    \<Rightarrow> ('blk, 'tx, 'key, 'bc, 'hdr, 'hs, 'lg, 'fu, 'r) zbft
    \<Rightarrow> nat" where
  "pending FromTxq z = length (buf (txq z))"
| "pending FromMsgIn z = length (buf (msgIn z))"
| "pending FromTimer z = (case timer z of None \<Rightarrow> 0 | Some t \<Rightarrow> length (buf (timerC t)))"
| "pending FromConfCh z = length (buf (confCh z))"

definition ready :: "('blk, 'tx, 'key, 'bc, 'hdr, 'hs, 'lg, 'fu, 'r) zbft \<Rightarrow> source list" where
  "ready z = filter (\<lambda>s. 0 < pending s z) [FromTxq, FromMsgIn, FromTimer, FromConfCh]"

text \<open>One case of the \<^verbatim>\<open>select\<close>: the receive, then the handler call of that case.\<close>

fun run_case ::
  "('blk, 'tx, 'key, 'bc, 'hdr, 'hs, 'lg, 'fu, 'r) handlers
    \<Rightarrow> source
    \<Rightarrow> ('blk, 'tx, 'key, 'bc, 'hdr, 'hs, 'lg, 'fu, 'r) zbft
    \<Rightarrow> unit call \<times> ('blk, 'tx, 'key, 'bc, 'hdr, 'hs, 'lg, 'fu, 'r) zbft" where
  "run_case H FromTxq z =
     (case chan_recv (txq z) of
        None \<Rightarrow> (Suspended, z)
      | Some (txs, c) \<Rightarrow> handleReadyTxs H txs (z\<lparr>txq := c\<rparr>))"
| "run_case H FromMsgIn z =
     (case chan_recv (msgIn z) of
        None \<Rightarrow> (Suspended, z)
      | Some (msg, c) \<Rightarrow> handleMessage H msg (z\<lparr>msgIn := c\<rparr>))"
| "run_case H FromTimer z =
     (case timer z of
        None \<Rightarrow> (Panicked, z)
      | Some t \<Rightarrow>
          (case chan_recv (timerC t) of
             None \<Rightarrow> (Suspended, z)
           | Some (tick, c) \<Rightarrow> handleErrorAndReset H errTimedOut (z\<lparr>timer := Some (t\<lparr>timerC := c\<rparr>)\<rparr>)))"
| "run_case H FromConfCh z =
     (case chan_recv (confCh z) of
        None \<Rightarrow> (Suspended, z)
      | Some (cch, c) \<Rightarrow> handleConfigChange H cch (z\<lparr>confCh := c\<rparr>))"

text \<open>
  One iteration of the \<^verbatim>\<open>for\<close> loop. Entering the \<^verbatim>\<open>select\<close> evaluates \<^verbatim>\<open>z.timer.C\<close>, which
  panics on a nil timer. With no case ready the loop waits; otherwise Go picks one of
  the ready cases, here the one numbered \<open>n\<close> among them.
\<close>

definition iteration ::
  "('blk, 'tx, 'key, 'bc, 'hdr, 'hs, 'lg, 'fu, 'r) handlers
    \<Rightarrow> nat
    \<Rightarrow> ('blk, 'tx, 'key, 'bc, 'hdr, 'hs, 'lg, 'fu, 'r) zbft
    \<Rightarrow> unit call \<times> ('blk, 'tx, 'key, 'bc, 'hdr, 'hs, 'lg, 'fu, 'r) zbft" where
  "iteration H n z =
     (case timer z of
        None \<Rightarrow> (Panicked, z)
      | Some t \<Rightarrow>
          (case ready z of
             [] \<Rightarrow> (Suspended, z)
           | r # rs \<Rightarrow> run_case H ((r # rs) ! (n mod length (r # rs))) z))"

text \<open>
  \<^verbatim>\<open>func (z *zbft) Start()\<close>: the loop has no exit. \<open>Start\<close> runs the iterations whose
  choices are listed and yields the state then reached; it stops at an iteration that
  does not complete. The executor goroutine that \<^verbatim>\<open>go z.startExecing()\<close> starts is not in
  zbft.go and takes no part in the iterations.
\<close>

fun Start ::
  "('blk, 'tx, 'key, 'bc, 'hdr, 'hs, 'lg, 'fu, 'r) handlers
    \<Rightarrow> nat list
    \<Rightarrow> ('blk, 'tx, 'key, 'bc, 'hdr, 'hs, 'lg, 'fu, 'r) zbft
    \<Rightarrow> unit call \<times> ('blk, 'tx, 'key, 'bc, 'hdr, 'hs, 'lg, 'fu, 'r) zbft" where
  "Start H [] z = (Returned (), z)"
| "Start H (n # ns) z =
     (case iteration H n z of
        (Returned u, z') \<Rightarrow> Start H ns z'
      | (Suspended, z') \<Rightarrow> (Suspended, z')
      | (Panicked, z') \<Rightarrow> (Panicked, z'))"

section \<open>New\<close>

text \<open>\<^verbatim>\<open>Config\<close>: the pointers and the interface value may be nil.\<close>

record ('key, 'bc, 'tx, 'hdr, 'lg) Config =
  KeyPair :: "'key keypair option"
  Blockchain :: "'bc option"
  FSM :: "('bc, 'tx, 'hdr) FSM_call list option"
  Logger :: 'lg

text \<open>
  What \<^verbatim>\<open>New\<close> uses and zbft.go does not define: \<^verbatim>\<open>Hasher().Clone()\<close> and
  \<^verbatim>\<open>SetBlockValidator(defaultBlockValidator)\<close> of the blockchain package, the constant
  \<^verbatim>\<open>defaultRoundTimeout\<close>, the method \<^verbatim>\<open>z.init()\<close>, and the zero values of the fields the
  struct literal leaves out.
\<close>

record ('blk, 'tx, 'key, 'bc, 'hdr, 'hs, 'lg, 'fu, 'r) deps =
  Hasher_Clone :: "'bc \<Rightarrow> 'hs"
  SetBlockValidator_default :: "'bc \<Rightarrow> 'bc"
  defaultRoundTimeout :: Duration
  init ::
    "('blk, 'tx, 'key, 'bc, 'hdr, 'hs, 'lg, 'fu, 'r) zbft
      \<Rightarrow> ('blk, 'tx, 'key, 'bc, 'hdr, 'hs, 'lg, 'fu, 'r) zbft"
  zero_futs :: 'fu
  zero_rest :: 'r

text \<open>\<^verbatim>\<open>func New(conf *Config) ZBFT\<close>. The channel \<^verbatim>\<open>txq\<close> is left nil by the literal (a nil
  channel never proceeds, like one of capacity 0 here) and the timer is left nil.\<close>

definition New ::
  "('blk, 'tx, 'key, 'bc, 'hdr, 'hs, 'lg, 'fu, 'r) deps
    \<Rightarrow> ('key, 'bc, 'tx, 'hdr, 'lg) Config option
    \<Rightarrow> ('blk, 'tx, 'key, 'bc, 'hdr, 'hs, 'lg, 'fu, 'r) zbft call" where
  "New D conf =
     (case conf of
        None \<Rightarrow> Panicked
      | Some cf \<Rightarrow>
          (case Blockchain cf of
             None \<Rightarrow> Panicked
           | Some b \<Rightarrow>
               (let z = \<lparr>bc = b, hasher = Hasher_Clone D b, kp = KeyPair cf,
                         roundTimeout = defaultRoundTimeout D,
                         msgBcast = make_chan 16, msgIn = make_chan 16,
                         txCollect = make_chan 16, exec = make_chan 16,
                         confCh = make_chan 8, fsm = FSM cf, log = Logger cf,
                         futs = zero_futs D, txq = make_chan 0, timer = None,
                         rest = zero_rest D\<rparr>;
                    z1 = z\<lparr>bc := SetBlockValidator_default D (bc z)\<rparr>;
                    z2 = init D z1
                in case fsm z2 of
                     None \<Rightarrow> Panicked
                   | Some calls \<Rightarrow>
                       Returned (z2\<lparr>fsm := Some (calls @ [Init (AsTxStore (bc z2))])\<rparr>))))"

section \<open>Auxiliary notions for the statements\<close>

text \<open>The channel \<open>c\<close> after one more value has been buffered in it.\<close>

definition enq :: "'a \<Rightarrow> 'a chan \<Rightarrow> 'a chan" where
  "enq x c = c\<lparr>buf := buf c @ [x]\<rparr>"

text \<open>The consensus state that zbft.go names or leaves to the handlers: the fields it
  never mentions, the round timeout and the timer.\<close>

definition consensus_state ::
  "('blk, 'tx, 'key, 'bc, 'hdr, 'hs, 'lg, 'fu, 'r) zbft \<Rightarrow> 'r \<times> Duration \<times> Timer option" where
  "consensus_state z = (rest z, roundTimeout z, timer z)"

text \<open>The \<^verbatim>\<open>BOOTSTRAP\<close> message of \<^verbatim>\<open>SetGenesis\<close>, for the statements about it.\<close>

definition bootstrap_msg :: "'key keypair \<Rightarrow> 'blk \<Rightarrow> 'tx list \<Rightarrow> ('blk, 'tx, 'key) Message" where
  "bootstrap_msg k blk txs = \<lparr>Type = BOOTSTRAP, Block = blk, Txs = txs, From = PublicKey k\<rparr>"

text \<open>The \<^verbatim>\<open>Init\<close> calls among the calls an FSM has received.\<close>

fun is_Init :: "('bc, 'tx, 'hdr) FSM_call \<Rightarrow> bool" where
  "is_Init (Init s) = True"
| "is_Init (Prepare txs) = False"
| "is_Init (Execute txs h l) = False"

definition Init_calls :: "('bc, 'tx, 'hdr) FSM_call list option \<Rightarrow> ('bc, 'tx, 'hdr) FSM_call list" where
  "Init_calls f = (case f of None \<Rightarrow> [] | Some calls \<Rightarrow> filter is_Init calls)"

text \<open>
  What happens to a node after \<^verbatim>\<open>New\<close>: callers invoke the public operations and the loop
  of \<^verbatim>\<open>Start\<close> runs iterations, in any order. A call that is suspended leaves the state it
  has reached.
\<close>

datatype ('blk, 'tx, 'key) engine_event =
    CallSetTimeout Duration
  | CallStep "('blk, 'tx, 'key) Message"
  | CallProposeTxs "'tx list"
  | CallSetGenesis 'blk "'tx list"
  | LoopIteration nat

fun engine_step ::
  "('tx list \<Rightarrow> 'fu \<Rightarrow> 'fut \<times> 'fu) \<Rightarrow> ('blk, 'tx, 'key, 'bc, 'hdr, 'hs, 'lg, 'fu, 'r) handlers
    \<Rightarrow> ('blk, 'tx, 'key) engine_event \<Rightarrow> ('blk, 'tx, 'key, 'bc, 'hdr, 'hs, 'lg, 'fu, 'r) zbft
    \<Rightarrow> ('blk, 'tx, 'key, 'bc, 'hdr, 'hs, 'lg, 'fu, 'r) zbft" where
  "engine_step A H (CallSetTimeout d) z = snd (SetTimeout d z)"
| "engine_step A H (CallStep msg) z = snd (Step msg z)"
| "engine_step A H (CallProposeTxs txs) z = snd (ProposeTxs A txs z)"
| "engine_step A H (CallSetGenesis blk txs) z = snd (SetGenesis A blk txs z)"
| "engine_step A H (LoopIteration n) z = snd (iteration H n z)"

fun engine_run ::
  "('tx list \<Rightarrow> 'fu \<Rightarrow> 'fut \<times> 'fu) \<Rightarrow> ('blk, 'tx, 'key, 'bc, 'hdr, 'hs, 'lg, 'fu, 'r) handlers
    \<Rightarrow> ('blk, 'tx, 'key) engine_event list \<Rightarrow> ('blk, 'tx, 'key, 'bc, 'hdr, 'hs, 'lg, 'fu, 'r) zbft
    \<Rightarrow> ('blk, 'tx, 'key, 'bc, 'hdr, 'hs, 'lg, 'fu, 'r) zbft" where
  "engine_run A H [] z = z"
| "engine_run A H (e # es) z = engine_run A H es (engine_step A H e z)"

text \<open>That none of the four handlers makes an \<^verbatim>\<open>Init\<close> call on the FSM.\<close>

definition handlers_make_no_Init :: "('blk, 'tx, 'key, 'bc, 'hdr, 'hs, 'lg, 'fu, 'r) handlers \<Rightarrow> bool" where
  "handlers_make_no_Init H =
     ((\<forall>txs y. Init_calls (fsm (snd (handleReadyTxs H txs y))) = Init_calls (fsm y))
    \<and> (\<forall>msg y. Init_calls (fsm (snd (handleMessage H msg y))) = Init_calls (fsm y))
    \<and> (\<forall>e y. Init_calls (fsm (snd (handleErrorAndReset H e y))) = Init_calls (fsm y))
    \<and> (\<forall>cch y. Init_calls (fsm (snd (handleConfigChange H cch y))) = Init_calls (fsm y)))"

section \<open>Example states\<close>

text \<open>A registry for the examples: the batches registered so far, the future of a
  batch being its index.\<close>

definition example_registry :: "nat list \<Rightarrow> nat list list \<Rightarrow> nat \<times> nat list list" where
  "example_registry txs fs = (length fs, fs @ [txs])"

text \<open>A node as \<^verbatim>\<open>New\<close> and \<^verbatim>\<open>init\<close> would leave it: empty channels, a key pair, a timer.\<close>

definition example_node ::
  "'bc \<Rightarrow> 'r \<Rightarrow> ('blk, nat, nat, 'bc, nat, unit, unit, nat list list, 'r) zbft" where
  "example_node c r =
     \<lparr>bc = c, hasher = (), kp = Some \<lparr>PublicKey = 7\<rparr>, roundTimeout = 1000,
      msgBcast = make_chan 16, msgIn = make_chan 16, txCollect = make_chan 16,
      exec = make_chan 16, confCh = make_chan 8, fsm = Some [], log = (), futs = [],
      txq = make_chan 16, timer = Some \<lparr>timerC = make_chan 1, deadline = None\<rparr>, rest = r\<rparr>"


text \<open>Handlers for the examples: each notes in \<open>rest\<close> which handler ran.\<close>

definition example_handlers ::
  "(string, nat, nat, 'bc, nat, unit, unit, nat list list, string list) handlers" where
  "example_handlers =
     \<lparr>handleReadyTxs = (\<lambda>txs z. (Returned (), z\<lparr>rest := rest z @ [''txs'']\<rparr>)),
      handleMessage = (\<lambda>msg z. (Returned (), z\<lparr>rest := rest z @ [''msg'']\<rparr>)),
      handleErrorAndReset = (\<lambda>e z. (Returned (), z\<lparr>rest := rest z @ [''timeout'']\<rparr>)),
      handleConfigChange = (\<lambda>cch z. (Returned (), z\<lparr>rest := rest z @ [''conf'']\<rparr>))\<rparr>"

text \<open>A node with one message and one configuration change waiting.\<close>

definition example_busy_node ::
  "(string, nat, nat, unit, nat, unit, unit, nat list list, string list) zbft" where
  "example_busy_node =
     (example_node () [])
       \<lparr>msgIn := enq \<lparr>Type = PREPARE, Block = ''b1'', Txs = [], From = 3\<rparr> (make_chan 16),
        confCh := enq \<lparr>cc_typ = confChangeTimeout, cc_data = 5\<rparr> (make_chan 8)\<rparr>"


text \<open>The parts outside zbft.go, for the examples: \<^verbatim>\<open>init\<close> makes the channel \<^verbatim>\<open>txq\<close> and the timer.\<close>

definition example_deps ::
  "(string, nat, nat, unit, nat, unit, unit, nat list list, string list) deps" where
  "example_deps =
     \<lparr>Hasher_Clone = (\<lambda>b. ()), SetBlockValidator_default = (\<lambda>b. b),
      defaultRoundTimeout = 1000,
      init = (\<lambda>z. z\<lparr>txq := make_chan 16,
                       timer := Some \<lparr>timerC = make_chan 1, deadline = None\<rparr>\<rparr>),
      zero_futs = [], zero_rest = []\<rparr>"

definition example_config :: "(nat, unit, nat, nat, unit) Config" where
  "example_config = \<lparr>KeyPair = Some \<lparr>PublicKey = 7\<rparr>, Blockchain = Some (), FSM = Some [], Logger = ()\<rparr>"

text \<open>A node with one batch waiting on \<^verbatim>\<open>txq\<close> and an expiry waiting on the timer channel.\<close>

definition example_batch_and_tick ::
  "(string, nat, nat, unit, nat, unit, unit, nat list list, string list) zbft" where
  "example_batch_and_tick =
     (example_node () [])
       \<lparr>txq := enq [1, 2] (make_chan 16),
        timer := Some \<lparr>timerC = enq 42 (make_chan 1), deadline = Some 42\<rparr>\<rparr>"

section \<open>The handlers, modelled from the specification\<close>

text \<open>
  Modelled from the spec: the round state is declared outside zbft.go. The fields are
  those of the specification's Round (height, phase, candidate block, prepare votes,
  commit votes), and the finalized block of each height.
\<close>

datatype round_phase = PH_PROPOSE | PH_PREPARE | PH_COMMIT | PH_FINALIZED | PH_TIMED_OUT

record ('blk, 'key) round_state =
  finalized :: "nat \<Rightarrow> 'blk option"
  height :: nat
  phase :: round_phase
  candidate :: "'blk option"
  prepare_votes :: "'key set"
  commit_votes :: "'key set"

text \<open>
  Modelled from the spec: \<^verbatim>\<open>handleMessage\<close> is not in zbft.go. After section 4.1 of the
  specification: a \<^verbatim>\<open>BOOTSTRAP\<close> message is accepted only when no finalized block exists for
  height 0; it then skips the votes, finalizes the block at once and enqueues it for
  execution (the send on the bounded \<^verbatim>\<open>exec\<close> channel may suspend, section 4.3); it is
  ignored when a genesis exists. A message of another kind from a height already
  finalized is discarded. What a \<^verbatim>\<open>PROPOSE\<close>, \<^verbatim>\<open>PREPARE\<close> or \<^verbatim>\<open>COMMIT\<close> message of a height
  not yet finalized does (leader, quorum, phase changes) is left open by the
  specification: it is the parameter \<open>live\<close>. \<open>height_of\<close> reads the height a block
  carries.
\<close>

definition handleMessage_spec ::
  "('blk \<Rightarrow> nat)
    \<Rightarrow> (('blk, 'tx, 'key) Message
          \<Rightarrow> ('blk, 'tx, 'key, 'bc, 'hdr, 'hs, 'lg, 'fu, ('blk, 'key) round_state) zbft
          \<Rightarrow> unit call \<times> ('blk, 'tx, 'key, 'bc, 'hdr, 'hs, 'lg, 'fu, ('blk, 'key) round_state) zbft)
    \<Rightarrow> ('blk, 'tx, 'key) Message
    \<Rightarrow> ('blk, 'tx, 'key, 'bc, 'hdr, 'hs, 'lg, 'fu, ('blk, 'key) round_state) zbft
    \<Rightarrow> unit call \<times> ('blk, 'tx, 'key, 'bc, 'hdr, 'hs, 'lg, 'fu, ('blk, 'key) round_state) zbft" where
  "handleMessage_spec height_of live msg z =
     (case Type msg of
        BOOTSTRAP \<Rightarrow>
          (case finalized (rest z) 0 of
             Some g \<Rightarrow> (Returned (), z)
           | None \<Rightarrow>
               (let z1 = z\<lparr>rest := (rest z)\<lparr>finalized := (finalized (rest z))(0 \<mapsto> Block msg)\<rparr>\<rparr>
                in case chan_send \<lparr>eb_block = Block msg, eb_txs = Txs msg\<rparr> (exec z1) of
                     None \<Rightarrow> (Suspended, z1)
                   | Some c \<Rightarrow> (Returned (), z1\<lparr>exec := c\<rparr>)))
      | _ \<Rightarrow>
          (case finalized (rest z) (height_of (Block msg)) of
             Some b \<Rightarrow> (Returned (), z)
           | None \<Rightarrow> live msg z))"

text \<open>
  Modelled from the spec: \<^verbatim>\<open>handleConfigChange\<close> is not in zbft.go. After section 4.1, item
  4: a timeout change is applied by the loop and affects only the deadline computed at
  the next timer reset; it stores the new round timeout.
\<close>

definition handleConfigChange_spec ::
  "configChange \<Rightarrow> ('blk, 'tx, 'key, 'bc, 'hdr, 'hs, 'lg, 'fu, 'r) zbft
    \<Rightarrow> unit call \<times> ('blk, 'tx, 'key, 'bc, 'hdr, 'hs, 'lg, 'fu, 'r) zbft" where
  "handleConfigChange_spec cch z =
     (case cc_typ cch of confChangeTimeout \<Rightarrow> (Returned (), z\<lparr>roundTimeout := cc_data cch\<rparr>))"

text \<open>
  Modelled from the spec: the timer reset is not in zbft.go. After section 2: the round
  timer is a single-shot, resettable deadline, one round timeout after the reset at time
  \<open>now\<close>.
\<close>

definition resetTimer_spec ::
  "int \<Rightarrow> ('blk, 'tx, 'key, 'bc, 'hdr, 'hs, 'lg, 'fu, 'r) zbft
    \<Rightarrow> unit call \<times> ('blk, 'tx, 'key, 'bc, 'hdr, 'hs, 'lg, 'fu, 'r) zbft" where
  "resetTimer_spec now z =
     (case timer z of
        None \<Rightarrow> (Panicked, z)
      | Some t \<Rightarrow> (Returned (), z\<lparr>timer := Some (t\<lparr>deadline := Some (now + sint (roundTimeout z))\<rparr>)\<rparr>))"

text \<open>For the examples: a round state with nothing finalized, blocks being pairs of a
  height and a name, and a vote handling that records the sender's prepare vote.\<close>

definition example_round :: "(nat \<times> string, nat) round_state" where
  "example_round =
     \<lparr>finalized = Map.empty, height = 0, phase = PH_PROPOSE, candidate = None,
      prepare_votes = {}, commit_votes = {}\<rparr>"

definition example_live ::
  "(nat \<times> string, nat, nat) Message
    \<Rightarrow> (nat \<times> string, nat, nat, unit, nat, unit, unit, nat list list, (nat \<times> string, nat) round_state) zbft
    \<Rightarrow> unit call \<times> (nat \<times> string, nat, nat, unit, nat, unit, unit, nat list list, (nat \<times> string, nat) round_state) zbft" where
  "example_live msg z =
     (Returned (),
      z\<lparr>rest := (rest z)\<lparr>prepare_votes := insert (From msg) (prepare_votes (rest z))\<rparr>\<rparr>)"

text \<open>Handlers that do nothing, to be overridden case by case.\<close>

definition quiet_handlers :: "('blk, 'tx, 'key, 'bc, 'hdr, 'hs, 'lg, 'fu, 'r) handlers" where
  "quiet_handlers =
     \<lparr>handleReadyTxs = (\<lambda>txs z. (Returned (), z)),
      handleMessage = (\<lambda>msg z. (Returned (), z)),
      handleErrorAndReset = (\<lambda>e z. (Returned (), z)),
      handleConfigChange = (\<lambda>cch z. (Returned (), z))\<rparr>"

text \<open>The example node after \<^verbatim>\<open>SetGenesis\<close>, its \<^verbatim>\<open>BOOTSTRAP\<close> message waiting on \<^verbatim>\<open>msgIn\<close>.\<close>

definition example_genesis_pending ::
  "(nat \<times> string, nat, nat, unit, nat, unit, unit, nat list list, (nat \<times> string, nat) round_state) zbft" where
  "example_genesis_pending =
     snd (SetGenesis example_registry (0, ''g'') [1, 2] (example_node () example_round))"

text \<open>A node with heights 0 and 1 finalized, after \<^verbatim>\<open>Step\<close> has fed in a \<^verbatim>\<open>PREPARE\<close> message
  for height 1 once more.\<close>

definition example_replay_pending ::
  "(nat \<times> string, nat, nat, unit, nat, unit, unit, nat list list, (nat \<times> string, nat) round_state) zbft" where
  "example_replay_pending =
     snd (Step \<lparr>Type = PREPARE, Block = (1, ''b1''), Txs = [], From = 3\<rparr>
            (example_node ()
               (example_round\<lparr>finalized := [0 \<mapsto> (0, ''g''), 1 \<mapsto> (1, ''b1'')], height := 2\<rparr>)))"

text \<open>A node whose timer is armed for the deadline 500.\<close>

definition example_armed ::
  "(string, nat, nat, unit, nat, unit, unit, nat list list, unit) zbft" where
  "example_armed =
     (example_node () ())\<lparr>timer := Some \<lparr>timerC = make_chan 1, deadline = Some 500\<rparr>\<rparr>"

text \<open>A node on which a block is finalized at height 0.\<close>

definition example_with_genesis ::
  "(nat \<times> string, nat, nat, unit, nat, unit, unit, nat list list, (nat \<times> string, nat) round_state) zbft" where
  "example_with_genesis =
     example_node () (example_round\<lparr>finalized := [0 \<mapsto> (0, ''g'')], height := 1\<rparr>)"

section \<open>Effects of the public operations\<close>

lemma chan_send_cases: "chan_send x c = None \<or> chan_send x c = Some (enq x c)"
  by (simp add: chan_send_def enq_def)

lemma SetTimeout_effect:
  "snd (SetTimeout d z) = z \<or>
   snd (SetTimeout d z) = z\<lparr>confCh := enq \<lparr>cc_typ = confChangeTimeout, cc_data = d\<rparr> (confCh z)\<rparr>"
  using chan_send_cases [of "\<lparr>cc_typ = confChangeTimeout, cc_data = d\<rparr>" "confCh z"]
  by (auto simp: SetTimeout_def)

lemma Step_effect:
  "snd (Step msg z) = z \<or> snd (Step msg z) = z\<lparr>msgIn := enq msg (msgIn z)\<rparr>"
  using chan_send_cases [of msg "msgIn z"]
  by (auto simp: Step_def)

lemma ProposeTxs_effect:
  "snd (ProposeTxs A txs z) = z\<lparr>futs := snd (A txs (futs z))\<rparr> \<or>
   snd (ProposeTxs A txs z) =
     z\<lparr>futs := snd (A txs (futs z)), txCollect := enq txs (txCollect z)\<rparr>"
  using chan_send_cases [of txs "txCollect z"]
  by (auto simp: ProposeTxs_def split: prod.splits)

lemma broadcast_effect:
  "snd (broadcast msg z) = z \<or> snd (broadcast msg z) = z\<lparr>msgBcast := enq msg (msgBcast z)\<rparr>"
  using chan_send_cases [of msg "msgBcast z"]
  by (auto simp: broadcast_def)

lemma SetGenesis_effect:
  "(case kp z of
      None \<Rightarrow> snd (SetGenesis A blk txs z) = z\<lparr>futs := snd (A txs (futs z))\<rparr>
    | Some k \<Rightarrow>
        snd (SetGenesis A blk txs z) = z\<lparr>futs := snd (A txs (futs z))\<rparr> \<or>
        snd (SetGenesis A blk txs z) =
          z\<lparr>futs := snd (A txs (futs z)), msgIn := enq (bootstrap_msg k blk txs) (msgIn z)\<rparr> \<or>
        snd (SetGenesis A blk txs z) =
          z\<lparr>futs := snd (A txs (futs z)), msgIn := enq (bootstrap_msg k blk txs) (msgIn z),
            msgBcast := enq (bootstrap_msg k blk txs) (msgBcast z)\<rparr>)"
proof (cases "kp z")
  case None
  then show ?thesis by (simp add: SetGenesis_def Let_def split: prod.splits)
next
  case (Some k)
  let ?m = "bootstrap_msg k blk txs"
  show ?thesis
  proof (cases "chan_send ?m (msgIn z)")
    case None
    with Some show ?thesis
      by (simp add: SetGenesis_def Let_def bootstrap_msg_def split: prod.splits)
  next
    case c: (Some c)
    then have c_eq: "c = enq ?m (msgIn z)"
      using chan_send_cases [of ?m "msgIn z"] by simp
    show ?thesis
    proof (cases "chan_send ?m (msgBcast z)")
      case None
      with Some c c_eq show ?thesis
        by (simp add: SetGenesis_def Let_def bootstrap_msg_def broadcast_def split: prod.splits)
    next
      case b: (Some b)
      then have "b = enq ?m (msgBcast z)"
        using chan_send_cases [of ?m "msgBcast z"] by simp
      with Some c c_eq b show ?thesis
        by (simp add: SetGenesis_def Let_def bootstrap_msg_def broadcast_def split: prod.splits)
    qed
  qed
qed

lemma SetTimeout_consensus: "consensus_state (snd (SetTimeout d z)) = consensus_state z"
  using SetTimeout_effect [of d z] by (auto simp: consensus_state_def)

lemma Step_consensus: "consensus_state (snd (Step msg z)) = consensus_state z"
  using Step_effect [of msg z] by (auto simp: consensus_state_def)

lemma ProposeTxs_consensus: "consensus_state (snd (ProposeTxs A txs z)) = consensus_state z"
  using ProposeTxs_effect [of A txs z] by (auto simp: consensus_state_def)

lemma SetGenesis_consensus: "consensus_state (snd (SetGenesis A blk txs z)) = consensus_state z"
  using SetGenesis_effect [of A blk txs z] by (auto simp: consensus_state_def split: option.splits)

text \<open>
  Claim C9. \<^verbatim>\<open>Step\<close>, \<^verbatim>\<open>SetTimeout\<close>, \<^verbatim>\<open>ProposeTxs\<close> and \<^verbatim>\<open>SetGenesis\<close> never change the
  consensus state (the fields zbft.go leaves to the handlers, the round timeout, the
  timer). Whatever the outcome of the call, the state it leaves is the state it found
  with at most these changes: one value more on \<^verbatim>\<open>confCh\<close> (\<^verbatim>\<open>SetTimeout\<close>), on \<^verbatim>\<open>msgIn\<close>
  (\<^verbatim>\<open>Step\<close>), on \<^verbatim>\<open>txCollect\<close> (\<^verbatim>\<open>ProposeTxs\<close>), on \<^verbatim>\<open>msgIn\<close> and then on \<^verbatim>\<open>msgBcast\<close>
  (\<^verbatim>\<open>SetGenesis\<close>); and for \<^verbatim>\<open>ProposeTxs\<close> and \<^verbatim>\<open>SetGenesis\<close> the registry is the one
  \<^verbatim>\<open>addTxsActive\<close> leaves, in every outcome, so the future is registered before the
  first send.
\<close>

theorem public_operations_only_enqueue:
  "(snd (SetTimeout d z) = z \<or>
    snd (SetTimeout d z) = z\<lparr>confCh := enq \<lparr>cc_typ = confChangeTimeout, cc_data = d\<rparr> (confCh z)\<rparr>)
   \<and> (snd (Step msg z) = z \<or> snd (Step msg z) = z\<lparr>msgIn := enq msg (msgIn z)\<rparr>)
   \<and> (snd (ProposeTxs A txs z) = z\<lparr>futs := snd (A txs (futs z))\<rparr> \<or>
      snd (ProposeTxs A txs z) =
        z\<lparr>futs := snd (A txs (futs z)), txCollect := enq txs (txCollect z)\<rparr>)
   \<and> (case kp z of
        None \<Rightarrow> snd (SetGenesis A blk txs z) = z\<lparr>futs := snd (A txs (futs z))\<rparr>
      | Some k \<Rightarrow>
          snd (SetGenesis A blk txs z) = z\<lparr>futs := snd (A txs (futs z))\<rparr> \<or>
          snd (SetGenesis A blk txs z) =
            z\<lparr>futs := snd (A txs (futs z)), msgIn := enq (bootstrap_msg k blk txs) (msgIn z)\<rparr> \<or>
          snd (SetGenesis A blk txs z) =
            z\<lparr>futs := snd (A txs (futs z)), msgIn := enq (bootstrap_msg k blk txs) (msgIn z),
              msgBcast := enq (bootstrap_msg k blk txs) (msgBcast z)\<rparr>)
   \<and> consensus_state (snd (SetTimeout d z)) = consensus_state z
   \<and> consensus_state (snd (Step msg z)) = consensus_state z
   \<and> consensus_state (snd (ProposeTxs A txs z)) = consensus_state z
   \<and> consensus_state (snd (SetGenesis A blk txs z)) = consensus_state z"
  using SetTimeout_effect [of d z] Step_effect [of msg z] ProposeTxs_effect [of A txs z]
    SetGenesis_effect [of A blk txs z] SetTimeout_consensus [of d z] Step_consensus [of msg z]
    ProposeTxs_consensus [of A txs z] SetGenesis_consensus [of A blk txs z]
  by blast

lemma chan_send_room:
  "length (buf c) < cap c \<Longrightarrow> chan_send x c = Some (c\<lparr>buf := buf c @ [x]\<rparr>)"
  by (simp add: chan_send_def)

text \<open>
  Claim C10. With a key pair set and room in \<^verbatim>\<open>msgIn\<close> and \<^verbatim>\<open>msgBcast\<close>, \<^verbatim>\<open>SetGenesis\<close>
  returns the future of \<^verbatim>\<open>addTxsActive\<close>, and it has appended one and the same message to
  both channels: the \<^verbatim>\<open>BOOTSTRAP\<close> message whose block and transactions are the ones given
  and whose sender is the node's own public key. The node's inbound channel is then
  exactly what \<^verbatim>\<open>Step\<close> leaves when a peer's copy of that message is fed in.
\<close>

theorem SetGenesis_delivers_bootstrap:
  assumes key: "kp z = Some k"
    and room_in: "length (buf (msgIn z)) < cap (msgIn z)"
    and room_out: "length (buf (msgBcast z)) < cap (msgBcast z)"
  shows "\<exists>z'. SetGenesis A blk txs z = (Returned (fst (A txs (futs z))), z')
           \<and> buf (msgIn z') =
               buf (msgIn z) @ [\<lparr>Type = BOOTSTRAP, Block = blk, Txs = txs, From = PublicKey k\<rparr>]
           \<and> buf (msgBcast z') =
               buf (msgBcast z) @ [\<lparr>Type = BOOTSTRAP, Block = blk, Txs = txs, From = PublicKey k\<rparr>]
           \<and> msgIn z' =
               msgIn (snd (Step \<lparr>Type = BOOTSTRAP, Block = blk, Txs = txs, From = PublicKey k\<rparr> z))"
proof -
  let ?m = "\<lparr>Type = BOOTSTRAP, Block = blk, Txs = txs, From = PublicKey k\<rparr>"
  let ?z' = "z\<lparr>futs := snd (A txs (futs z)), msgIn := (msgIn z)\<lparr>buf := buf (msgIn z) @ [?m]\<rparr>,
               msgBcast := (msgBcast z)\<lparr>buf := buf (msgBcast z) @ [?m]\<rparr>\<rparr>"
  have run: "SetGenesis A blk txs z = (Returned (fst (A txs (futs z))), ?z')"
    using key chan_send_room [OF room_in, of ?m] chan_send_room [OF room_out, of ?m]
    by (simp add: SetGenesis_def Let_def broadcast_def split: prod.splits)
  have step: "msgIn (snd (Step ?m z)) = (msgIn z)\<lparr>buf := buf (msgIn z) @ [?m]\<rparr>"
    using chan_send_room [OF room_in, of ?m] by (simp add: Step_def)
  show ?thesis
    by (intro exI [of _ ?z']) (simp add: run step)
qed

theorem SetGenesis_delivers_bootstrap_witness:
  "kp (example_node () ()) = Some \<lparr>PublicKey = 7\<rparr>
   \<and> length (buf (msgIn (example_node () ()))) < cap (msgIn (example_node () ()))
   \<and> length (buf (msgBcast (example_node () ()))) < cap (msgBcast (example_node () ()))
   \<and> buf (msgIn (snd (SetGenesis example_registry ''g'' [1, 2] (example_node () ())))) =
     [\<lparr>Type = BOOTSTRAP, Block = ''g'', Txs = [1, 2], From = 7\<rparr>]
   \<and> buf (msgBcast (snd (SetGenesis example_registry ''g'' [1, 2] (example_node () ())))) =
     [\<lparr>Type = BOOTSTRAP, Block = ''g'', Txs = [1, 2], From = 7\<rparr>]
   \<and> fst (SetGenesis example_registry ''g'' [1, 2] (example_node () ())) = Returned 0"
  using SetGenesis_delivers_bootstrap [of "example_node () ()" "\<lparr>PublicKey = 7\<rparr>"
      example_registry "''g''" "[1, 2]"]
  by (auto simp: example_node_def make_chan_def example_registry_def)

section \<open>The loop handles one event per iteration\<close>

lemma chan_recv_Cons: "buf c = x # q \<Longrightarrow> chan_recv c = Some (x, c\<lparr>buf := q\<rparr>)"
  by (simp add: chan_recv_def)

lemma ready_member: "s \<in> set (ready z) \<Longrightarrow> 0 < pending s z"
  unfolding ready_def set_filter by simp

lemma picked_ready:
  assumes "ready z = r # rs"
  shows "0 < pending ((r # rs) ! (n mod length (r # rs))) z"
proof -
  have "(r # rs) ! (n mod length (r # rs)) \<in> set (r # rs)"
    by (rule nth_mem) simp
  with assms show ?thesis by (simp add: ready_member)
qed

lemma run_case_one_event:
  assumes "timer z = Some t" and "0 < pending s z"
  shows "(\<exists>txs q. buf (txq z) = txs # q
            \<and> run_case H s z = handleReadyTxs H txs (z\<lparr>txq := (txq z)\<lparr>buf := q\<rparr>\<rparr>))
       \<or> (\<exists>msg q. buf (msgIn z) = msg # q
            \<and> run_case H s z = handleMessage H msg (z\<lparr>msgIn := (msgIn z)\<lparr>buf := q\<rparr>\<rparr>))
       \<or> (\<exists>tick q. buf (timerC t) = tick # q
            \<and> run_case H s z =
                handleErrorAndReset H errTimedOut (z\<lparr>timer := Some (t\<lparr>timerC := (timerC t)\<lparr>buf := q\<rparr>\<rparr>)\<rparr>))
       \<or> (\<exists>cch q. buf (confCh z) = cch # q
            \<and> run_case H s z = handleConfigChange H cch (z\<lparr>confCh := (confCh z)\<lparr>buf := q\<rparr>\<rparr>))"
proof (cases s)
  case FromTxq
  with assms obtain txs q where b: "buf (txq z) = txs # q"
    by (cases "buf (txq z)") auto
  with FromTxq show ?thesis by (simp add: chan_recv_Cons)
next
  case FromMsgIn
  with assms obtain msg q where b: "buf (msgIn z) = msg # q"
    by (cases "buf (msgIn z)") auto
  with FromMsgIn show ?thesis by (simp add: chan_recv_Cons)
next
  case FromTimer
  with assms obtain tick q where b: "buf (timerC t) = tick # q"
    by (cases "buf (timerC t)") auto
  with FromTimer assms show ?thesis by (simp add: chan_recv_Cons)
next
  case FromConfCh
  with assms obtain cch q where b: "buf (confCh z) = cch # q"
    by (cases "buf (confCh z)") auto
  with FromConfCh show ?thesis by (simp add: chan_recv_Cons)
qed

lemma ready_set: "set (ready z) = {s. 0 < pending s z}"
proof -
  have "s \<in> set [FromTxq, FromMsgIn, FromTimer, FromConfCh]" for s :: source
    by (cases s) simp_all
  then show ?thesis
    unfolding ready_def set_filter by blast
qed

lemma ready_empty_iff:
  assumes "timer z = Some t"
  shows "ready z = [] \<longleftrightarrow>
           buf (txq z) = [] \<and> buf (msgIn z) = [] \<and> buf (timerC t) = [] \<and> buf (confCh z) = []"
proof -
  have "ready z = [] \<longleftrightarrow> (\<forall>s. pending s z = 0)"
    using ready_set [of z] by (auto simp: set_empty [symmetric] simp del: set_empty)
  also have "\<dots> \<longleftrightarrow> pending FromTxq z = 0 \<and> pending FromMsgIn z = 0
               \<and> pending FromTimer z = 0 \<and> pending FromConfCh z = 0"
  proof
    assume "\<forall>s. pending s z = 0"
    then show "pending FromTxq z = 0 \<and> pending FromMsgIn z = 0
               \<and> pending FromTimer z = 0 \<and> pending FromConfCh z = 0"
      by blast
  next
    assume all: "pending FromTxq z = 0 \<and> pending FromMsgIn z = 0
               \<and> pending FromTimer z = 0 \<and> pending FromConfCh z = 0"
    show "\<forall>s. pending s z = 0"
    proof
      fix s show "pending s z = 0" using all by (cases s) simp_all
    qed
  qed
  finally show ?thesis using assms by simp
qed

lemma iteration_serves_any_pending_channel:
  assumes "timer z = Some t" and "0 < pending s z"
  shows "\<exists>m. iteration H m z = run_case H s z"
proof -
  from assms(2) have "s \<in> set (ready z)" by (simp add: ready_set)
  then obtain i where i: "i < length (ready z)" and s: "ready z ! i = s"
    by (auto simp: in_set_conv_nth)
  from i obtain r rs where rd: "ready z = r # rs"
    by (cases "ready z") auto
  have "iteration H i z = run_case H ((r # rs) ! (i mod length (r # rs))) z"
    using assms(1) rd by (simp add: iteration_def)
  also have "(r # rs) ! (i mod length (r # rs)) = s"
    using i s rd by simp
  finally show ?thesis by blast
qed

lemma iteration_nil_timer: "timer z = None \<Longrightarrow> iteration H n z = (Panicked, z)"
  by (simp add: iteration_def)

lemma iteration_waits_or_handles:
  assumes "timer z = Some t"
  shows "(buf (txq z) = [] \<and> buf (msgIn z) = [] \<and> buf (timerC t) = [] \<and> buf (confCh z) = []
            \<and> iteration H n z = (Suspended, z))
       \<or> (\<exists>txs q. buf (txq z) = txs # q
            \<and> iteration H n z = handleReadyTxs H txs (z\<lparr>txq := (txq z)\<lparr>buf := q\<rparr>\<rparr>))
       \<or> (\<exists>msg q. buf (msgIn z) = msg # q
            \<and> iteration H n z = handleMessage H msg (z\<lparr>msgIn := (msgIn z)\<lparr>buf := q\<rparr>\<rparr>))
       \<or> (\<exists>tick q. buf (timerC t) = tick # q
            \<and> iteration H n z =
                handleErrorAndReset H errTimedOut (z\<lparr>timer := Some (t\<lparr>timerC := (timerC t)\<lparr>buf := q\<rparr>\<rparr>)\<rparr>))
       \<or> (\<exists>cch q. buf (confCh z) = cch # q
            \<and> iteration H n z = handleConfigChange H cch (z\<lparr>confCh := (confCh z)\<lparr>buf := q\<rparr>\<rparr>))"
proof (cases "ready z")
  case Nil
  then have "buf (txq z) = [] \<and> buf (msgIn z) = [] \<and> buf (timerC t) = [] \<and> buf (confCh z) = []"
    using ready_empty_iff [OF assms] by simp
  moreover have "iteration H n z = (Suspended, z)"
    using assms Nil by (simp add: iteration_def)
  ultimately show ?thesis by blast
next
  case (Cons r rs)
  let ?s = "(r # rs) ! (n mod length (r # rs))"
  have it: "iteration H n z = run_case H ?s z"
    using assms Cons by (simp add: iteration_def)
  have "0 < pending ?s z" by (rule picked_ready [OF Cons])
  from run_case_one_event [OF assms this, of H] show ?thesis
    unfolding it by blast
qed

lemma serves_txq:
  assumes "timer z = Some t"
  shows "buf (txq z) = []
       \<or> (\<exists>m txs q. buf (txq z) = txs # q
            \<and> iteration H m z = handleReadyTxs H txs (z\<lparr>txq := (txq z)\<lparr>buf := q\<rparr>\<rparr>))"
proof (cases "buf (txq z)")
  case Nil
  then show ?thesis by simp
next
  case (Cons txs q)
  then have "0 < pending FromTxq z" by simp
  from iteration_serves_any_pending_channel [OF assms this, of H]
  show ?thesis using Cons by (auto simp: chan_recv_Cons)
qed

lemma serves_msgIn:
  assumes "timer z = Some t"
  shows "buf (msgIn z) = []
       \<or> (\<exists>m msg q. buf (msgIn z) = msg # q
            \<and> iteration H m z = handleMessage H msg (z\<lparr>msgIn := (msgIn z)\<lparr>buf := q\<rparr>\<rparr>))"
proof (cases "buf (msgIn z)")
  case Nil
  then show ?thesis by simp
next
  case (Cons msg q)
  then have "0 < pending FromMsgIn z" by simp
  from iteration_serves_any_pending_channel [OF assms this, of H]
  show ?thesis using Cons by (auto simp: chan_recv_Cons)
qed

lemma serves_timer:
  assumes "timer z = Some t"
  shows "buf (timerC t) = []
       \<or> (\<exists>m tick q. buf (timerC t) = tick # q
            \<and> iteration H m z =
                handleErrorAndReset H errTimedOut (z\<lparr>timer := Some (t\<lparr>timerC := (timerC t)\<lparr>buf := q\<rparr>\<rparr>)\<rparr>))"
proof (cases "buf (timerC t)")
  case Nil
  then show ?thesis by simp
next
  case (Cons tick q)
  then have "0 < pending FromTimer z" using assms by simp
  from iteration_serves_any_pending_channel [OF assms this, of H]
  show ?thesis using Cons assms by (auto simp: chan_recv_Cons)
qed

lemma serves_confCh:
  assumes "timer z = Some t"
  shows "buf (confCh z) = []
       \<or> (\<exists>m cch q. buf (confCh z) = cch # q
            \<and> iteration H m z = handleConfigChange H cch (z\<lparr>confCh := (confCh z)\<lparr>buf := q\<rparr>\<rparr>))"
proof (cases "buf (confCh z)")
  case Nil
  then show ?thesis by simp
next
  case (Cons cch q)
  then have "0 < pending FromConfCh z" by simp
  from iteration_serves_any_pending_channel [OF assms this, of H]
  show ?thesis using Cons by (auto simp: chan_recv_Cons)
qed

text \<open>
  Claim C5. The loop of \<^verbatim>\<open>Start\<close> waits on exactly the four channels \<^verbatim>\<open>z.txq\<close>, \<^verbatim>\<open>z.msgIn\<close>,
  \<^verbatim>\<open>z.timer.C\<close> and \<^verbatim>\<open>z.confCh\<close>. With the timer set, an iteration waits, leaving the
  state untouched, only when all four channels are empty; otherwise it is exactly one
  handler call on exactly one received value: the oldest value of one of the four
  channels is taken off that channel, nothing else in the state changes before the
  call, and the handler of that case is applied once. Each of the four channels is
  served: whenever it holds a value, some choice of the \<^verbatim>\<open>select\<close> makes the iteration
  handle its oldest value. On a nil timer the iteration panics. The loop is these
  iterations one after the other: the next one starts when the handler has returned.
\<close>

theorem Start_serves_four_sources_one_event_each:
  "(case timer z of
      None \<Rightarrow> iteration H n z = (Panicked, z)
    | Some t \<Rightarrow>
        ((buf (txq z) = [] \<and> buf (msgIn z) = [] \<and> buf (timerC t) = [] \<and> buf (confCh z) = []
            \<and> iteration H n z = (Suspended, z))
         \<or> (\<exists>txs q. buf (txq z) = txs # q
              \<and> iteration H n z = handleReadyTxs H txs (z\<lparr>txq := (txq z)\<lparr>buf := q\<rparr>\<rparr>))
         \<or> (\<exists>msg q. buf (msgIn z) = msg # q
              \<and> iteration H n z = handleMessage H msg (z\<lparr>msgIn := (msgIn z)\<lparr>buf := q\<rparr>\<rparr>))
         \<or> (\<exists>tick q. buf (timerC t) = tick # q
              \<and> iteration H n z =
                  handleErrorAndReset H errTimedOut
                    (z\<lparr>timer := Some (t\<lparr>timerC := (timerC t)\<lparr>buf := q\<rparr>\<rparr>)\<rparr>))
         \<or> (\<exists>cch q. buf (confCh z) = cch # q
              \<and> iteration H n z = handleConfigChange H cch (z\<lparr>confCh := (confCh z)\<lparr>buf := q\<rparr>\<rparr>)))
        \<and> (buf (txq z) = []
           \<or> (\<exists>m txs q. buf (txq z) = txs # q
                \<and> iteration H m z = handleReadyTxs H txs (z\<lparr>txq := (txq z)\<lparr>buf := q\<rparr>\<rparr>)))
        \<and> (buf (msgIn z) = []
           \<or> (\<exists>m msg q. buf (msgIn z) = msg # q
                \<and> iteration H m z = handleMessage H msg (z\<lparr>msgIn := (msgIn z)\<lparr>buf := q\<rparr>\<rparr>)))
        \<and> (buf (timerC t) = []
           \<or> (\<exists>m tick q. buf (timerC t) = tick # q
                \<and> iteration H m z =
                    handleErrorAndReset H errTimedOut
                      (z\<lparr>timer := Some (t\<lparr>timerC := (timerC t)\<lparr>buf := q\<rparr>\<rparr>)\<rparr>)))
        \<and> (buf (confCh z) = []
           \<or> (\<exists>m cch q. buf (confCh z) = cch # q
                \<and> iteration H m z = handleConfigChange H cch (z\<lparr>confCh := (confCh z)\<lparr>buf := q\<rparr>\<rparr>))))
   \<and> Start H [] z = (Returned (), z)
   \<and> Start H (n # ns) z =
       (case iteration H n z of
          (Returned u, z') \<Rightarrow> Start H ns z'
        | (Suspended, z') \<Rightarrow> (Suspended, z')
        | (Panicked, z') \<Rightarrow> (Panicked, z'))"
proof (cases "timer z")
  case None
  then show ?thesis by (simp add: iteration_nil_timer)
next
  case (Some t)
  note parts = iteration_waits_or_handles [OF Some, of H n] serves_txq [OF Some, of H]
    serves_msgIn [OF Some, of H] serves_timer [OF Some, of H] serves_confCh [OF Some, of H]
  show ?thesis
    unfolding Some option.case using parts by simp
qed

theorem Start_serves_four_sources_one_event_each_witness:
  "ready example_busy_node = [FromMsgIn, FromConfCh]
   \<and> fst (iteration example_handlers 1 example_busy_node) = Returned ()
   \<and> rest (snd (iteration example_handlers 1 example_busy_node)) = [''conf'']
   \<and> buf (confCh (snd (iteration example_handlers 1 example_busy_node))) = []
   \<and> msgIn (snd (iteration example_handlers 1 example_busy_node)) = msgIn example_busy_node
   \<and> rest (snd (iteration example_handlers 0 example_busy_node)) = [''msg'']
   \<and> buf (msgIn (snd (iteration example_handlers 0 example_busy_node))) = []
   \<and> rest (snd (iteration example_handlers 0 example_batch_and_tick)) = [''txs'']
   \<and> buf (txq (snd (iteration example_handlers 0 example_batch_and_tick))) = []
   \<and> rest (snd (iteration example_handlers 1 example_batch_and_tick)) = [''timeout'']
   \<and> iteration example_handlers 0 (example_node () []) = (Suspended, example_node () [])
   \<and> Start example_handlers [0, 0, 0] example_busy_node =
       (Suspended,
        (example_node () [])\<lparr>rest := [''msg'', ''conf'']\<rparr>)"
  using Start_serves_four_sources_one_event_each
    [where z = example_busy_node and H = example_handlers and n = 1 and ns = "[]"]
  by (simp add: example_busy_node_def example_batch_and_tick_def example_node_def
      example_handlers_def make_chan_def enq_def iteration_def ready_def chan_recv_def)

section \<open>New initializes the FSM once\<close>

lemma New_Returned:
  assumes "New D conf = Returned z"
  shows "\<exists>cf b calls z2. conf = Some cf \<and> Blockchain cf = Some b \<and> fsm z2 = Some calls
           \<and> z2 = init D
                 (\<lparr>bc = SetBlockValidator_default D b, hasher = Hasher_Clone D b, kp = KeyPair cf,
                   roundTimeout = defaultRoundTimeout D,
                   msgBcast = make_chan 16, msgIn = make_chan 16,
                   txCollect = make_chan 16, exec = make_chan 16,
                   confCh = make_chan 8, fsm = FSM cf, log = Logger cf,
                   futs = zero_futs D, txq = make_chan 0, timer = None,
                   rest = zero_rest D\<rparr>)
           \<and> z = z2\<lparr>fsm := Some (calls @ [Init (AsTxStore (bc z2))])\<rparr>"
  using assms by (auto simp: New_def Let_def split: option.splits)

lemma SetTimeout_fsm: "fsm (snd (SetTimeout d z)) = fsm z"
  using SetTimeout_effect [of d z] by auto

lemma Step_fsm: "fsm (snd (Step msg z)) = fsm z"
  using Step_effect [of msg z] by auto

lemma ProposeTxs_fsm: "fsm (snd (ProposeTxs A txs z)) = fsm z"
  using ProposeTxs_effect [of A txs z] by auto

lemma SetGenesis_fsm: "fsm (snd (SetGenesis A blk txs z)) = fsm z"
  using SetGenesis_effect [of A blk txs z] by (auto split: option.splits)

lemma run_case_Init_calls:
  assumes "handlers_make_no_Init H"
  shows "Init_calls (fsm (snd (run_case H s z))) = Init_calls (fsm z)"
  using assms
  by (cases s) (auto simp: handlers_make_no_Init_def split: option.splits prod.splits)

lemma iteration_Init_calls:
  assumes "handlers_make_no_Init H"
  shows "Init_calls (fsm (snd (iteration H n z))) = Init_calls (fsm z)"
  using run_case_Init_calls [OF assms]
  by (simp add: iteration_def split: option.splits list.splits)

lemma engine_step_Init_calls:
  assumes "handlers_make_no_Init H"
  shows "Init_calls (fsm (engine_step A H e z)) = Init_calls (fsm z)"
  using iteration_Init_calls [OF assms]
  by (cases e) (simp_all add: SetTimeout_fsm Step_fsm ProposeTxs_fsm SetGenesis_fsm)

lemma engine_run_Init_calls:
  assumes "handlers_make_no_Init H"
  shows "Init_calls (fsm (engine_run A H es z)) = Init_calls (fsm z)"
  by (induction es arbitrary: z) (simp_all add: engine_step_Init_calls [OF assms])

text \<open>
  Claim C7. When \<^verbatim>\<open>New\<close> returns a node, the FSM it was given has received exactly one
  call more, made in \<^verbatim>\<open>New\<close> after \<^verbatim>\<open>z.init()\<close>: \<^verbatim>\<open>Init\<close> with the node's own blockchain
  as a \<^verbatim>\<open>TxStore\<close>. After any sequence of public operations and loop iterations on that
  node, the \<^verbatim>\<open>Init\<close> calls the FSM has received are still the ones it had before \<^verbatim>\<open>New\<close>
  and this one. The code that is not in zbft.go enters as hypotheses: \<^verbatim>\<open>z.init()\<close> makes
  no FSM call and the four handlers make no \<^verbatim>\<open>Init\<close> call.
\<close>

theorem New_calls_Init_exactly_once:
  assumes new: "New D conf = Returned z"
    and init_quiet: "\<forall>y. fsm (init D y) = fsm y"
    and handlers_quiet: "handlers_make_no_Init H"
  shows "\<exists>cf calls. conf = Some cf \<and> FSM cf = Some calls
           \<and> fsm z = Some (calls @ [Init (AsTxStore (bc z))])
           \<and> Init_calls (fsm (engine_run A H es z)) =
               Init_calls (FSM cf) @ [Init (AsTxStore (bc z))]"
proof -
  from New_Returned [OF new] obtain cf b calls z2 where
    conf: "conf = Some cf" and z2_fsm: "fsm z2 = Some calls"
    and z2: "z2 = init D
                 (\<lparr>bc = SetBlockValidator_default D b, hasher = Hasher_Clone D b, kp = KeyPair cf,
                   roundTimeout = defaultRoundTimeout D,
                   msgBcast = make_chan 16, msgIn = make_chan 16,
                   txCollect = make_chan 16, exec = make_chan 16,
                   confCh = make_chan 8, fsm = FSM cf, log = Logger cf,
                   futs = zero_futs D, txq = make_chan 0, timer = None,
                   rest = zero_rest D\<rparr>)"
    and z: "z = z2\<lparr>fsm := Some (calls @ [Init (AsTxStore (bc z2))])\<rparr>"
    by blast
  have "fsm z2 = FSM cf"
    using init_quiet z2 by simp
  with z2_fsm have given: "FSM cf = Some calls" by simp
  have logged: "fsm z = Some (calls @ [Init (AsTxStore (bc z))])"
    using z by simp
  have "Init_calls (fsm (engine_run A H es z)) = Init_calls (fsm z)"
    by (rule engine_run_Init_calls [OF handlers_quiet])
  also have "\<dots> = Init_calls (FSM cf) @ [Init (AsTxStore (bc z))]"
    using logged given by (simp add: Init_calls_def)
  finally show ?thesis
    using conf given logged by simp
qed

theorem New_calls_Init_exactly_once_witness:
  "New example_deps (Some example_config) =
     Returned ((example_node () [])\<lparr>fsm := Some [Init (AsTxStore ())]\<rparr>)
   \<and> Init_calls (fsm (engine_run example_registry example_handlers
        [CallSetGenesis ''g'' [1], LoopIteration 0, CallProposeTxs [2], CallSetTimeout 5,
         LoopIteration 0]
        ((example_node () [])\<lparr>fsm := Some [Init (AsTxStore ())]\<rparr>))) = [Init (AsTxStore ())]"
proof -
  have new: "New example_deps (Some example_config) =
     Returned ((example_node () [])\<lparr>fsm := Some [Init (AsTxStore ())]\<rparr>)"
    by (simp add: New_def example_deps_def example_config_def example_node_def Let_def)
  have quiet: "\<forall>y. fsm (init example_deps y) = fsm y"
    by (simp add: example_deps_def)
  have h: "handlers_make_no_Init example_handlers"
    by (simp add: handlers_make_no_Init_def example_handlers_def)
  from New_calls_Init_exactly_once [OF new quiet h, of example_registry
      "[CallSetGenesis ''g'' [1], LoopIteration 0, CallProposeTxs [2], CallSetTimeout 5,
         LoopIteration 0]"]
  show ?thesis using new by (simp add: example_config_def Init_calls_def)
qed

section \<open>The loop with the handlers of the specification\<close>

text \<open>
  Claim C4. When the loop of \<^verbatim>\<open>Start\<close> takes a \<^verbatim>\<open>BOOTSTRAP\<close> message off \<^verbatim>\<open>msgIn\<close> and no
  block is finalized at height 0 (and the \<^verbatim>\<open>exec\<close> channel has room), the message handler
  of the specification returns with the message's block finalized at height 0 and the
  block and its transactions enqueued on \<^verbatim>\<open>exec\<close>, and with nothing else changed: the
  prepare votes and the commit votes are as before. This holds for every block, whatever
  it references, and whatever the vote handling \<open>live\<close> is: neither is consulted.
\<close>

theorem bootstrap_finalizes_without_votes:
  assumes head: "buf (msgIn z) = msg # q"
    and kind: "Type msg = BOOTSTRAP"
    and no_genesis: "finalized (rest z) 0 = None"
    and room: "length (buf (exec z)) < cap (exec z)"
  shows "run_case (H\<lparr>handleMessage := handleMessage_spec height_of live\<rparr>) FromMsgIn z =
           (Returned (),
            z\<lparr>msgIn := (msgIn z)\<lparr>buf := q\<rparr>,
              rest := (rest z)\<lparr>finalized := (finalized (rest z))(0 \<mapsto> Block msg)\<rparr>,
              exec := enq \<lparr>eb_block = Block msg, eb_txs = Txs msg\<rparr> (exec z)\<rparr>)
       \<and> prepare_votes (rest (snd (run_case (H\<lparr>handleMessage := handleMessage_spec height_of live\<rparr>)
             FromMsgIn z))) = prepare_votes (rest z)
       \<and> commit_votes (rest (snd (run_case (H\<lparr>handleMessage := handleMessage_spec height_of live\<rparr>)
             FromMsgIn z))) = commit_votes (rest z)"
  using head kind no_genesis chan_send_room [OF room]
  by (simp add: chan_recv_Cons handleMessage_spec_def Let_def enq_def)

theorem bootstrap_finalizes_without_votes_witness:
  "buf (msgIn example_genesis_pending) =
     [\<lparr>Type = BOOTSTRAP, Block = (0, ''g''), Txs = [1, 2], From = 7\<rparr>]
   \<and> finalized (rest example_genesis_pending) 0 = None
   \<and> fst (run_case (quiet_handlers\<lparr>handleMessage := handleMessage_spec fst example_live\<rparr>)
         FromMsgIn example_genesis_pending) = Returned ()
   \<and> finalized (rest (snd (run_case (quiet_handlers\<lparr>handleMessage := handleMessage_spec fst example_live\<rparr>)
         FromMsgIn example_genesis_pending))) 0 = Some (0, ''g'')
   \<and> buf (exec (snd (run_case (quiet_handlers\<lparr>handleMessage := handleMessage_spec fst example_live\<rparr>)
         FromMsgIn example_genesis_pending))) = [\<lparr>eb_block = (0, ''g''), eb_txs = [1, 2]\<rparr>]
   \<and> prepare_votes (rest (snd (run_case (quiet_handlers\<lparr>handleMessage := handleMessage_spec fst example_live\<rparr>)
         FromMsgIn example_genesis_pending))) = {}
   \<and> commit_votes (rest (snd (run_case (quiet_handlers\<lparr>handleMessage := handleMessage_spec fst example_live\<rparr>)
         FromMsgIn example_genesis_pending))) = {}"
proof -
  have pending: "example_genesis_pending =
      (example_node () example_round)
        \<lparr>futs := [[1, 2]],
         msgIn := \<lparr>cap = 16, buf = [\<lparr>Type = BOOTSTRAP, Block = (0, ''g''), Txs = [1, 2], From = 7\<rparr>]\<rparr>,
         msgBcast := \<lparr>cap = 16, buf = [\<lparr>Type = BOOTSTRAP, Block = (0, ''g''), Txs = [1, 2], From = 7\<rparr>]\<rparr>\<rparr>"
    by (simp add: example_genesis_pending_def SetGenesis_def Let_def broadcast_def chan_send_def
        example_node_def example_registry_def make_chan_def)
  have head: "buf (msgIn example_genesis_pending) =
      \<lparr>Type = BOOTSTRAP, Block = (0, ''g''), Txs = [1, 2], From = 7\<rparr> # []"
    by (simp add: pending)
  have none: "finalized (rest example_genesis_pending) 0 = None"
    by (simp add: pending example_node_def example_round_def)
  have room: "length (buf (exec example_genesis_pending)) < cap (exec example_genesis_pending)"
    by (simp add: pending example_node_def make_chan_def)
  from bootstrap_finalizes_without_votes
    [where H = quiet_handlers and height_of = fst and live = example_live, OF head _ none room]
  show ?thesis
    using head none
    by (simp add: pending example_node_def example_round_def make_chan_def enq_def)
qed

text \<open>
  Claim C8. When the loop of \<^verbatim>\<open>Start\<close> takes a \<^verbatim>\<open>PREPARE\<close> or \<^verbatim>\<open>COMMIT\<close> message off \<^verbatim>\<open>msgIn\<close>
  and the height of the message's block is already finalized, the message handler of the
  specification returns and the state is the one before, less that message on \<^verbatim>\<open>msgIn\<close>:
  the consensus state is unchanged and so is the registry of futures.
\<close>

theorem stale_vote_is_discarded:
  assumes head: "buf (msgIn z) = msg # q"
    and kind: "Type msg = PREPARE \<or> Type msg = COMMIT"
    and stale: "finalized (rest z) (height_of (Block msg)) = Some b"
  shows "run_case (H\<lparr>handleMessage := handleMessage_spec height_of live\<rparr>) FromMsgIn z =
           (Returned (), z\<lparr>msgIn := (msgIn z)\<lparr>buf := q\<rparr>\<rparr>)
       \<and> consensus_state (snd (run_case (H\<lparr>handleMessage := handleMessage_spec height_of live\<rparr>)
             FromMsgIn z)) = consensus_state z
       \<and> futs (snd (run_case (H\<lparr>handleMessage := handleMessage_spec height_of live\<rparr>)
             FromMsgIn z)) = futs z"
  using head kind stale
  by (auto simp: chan_recv_Cons handleMessage_spec_def consensus_state_def)

theorem stale_vote_is_discarded_witness:
  "buf (msgIn example_replay_pending) = [\<lparr>Type = PREPARE, Block = (1, ''b1''), Txs = [], From = 3\<rparr>]
   \<and> finalized (rest example_replay_pending) 1 = Some (1, ''b1'')
   \<and> run_case (quiet_handlers\<lparr>handleMessage := handleMessage_spec fst example_live\<rparr>)
         FromMsgIn example_replay_pending =
       (Returned (),
        example_node ()
          (example_round\<lparr>finalized := [0 \<mapsto> (0, ''g''), 1 \<mapsto> (1, ''b1'')], height := 2\<rparr>))"
proof -
  have pending: "example_replay_pending =
      (example_node ()
         (example_round\<lparr>finalized := [0 \<mapsto> (0, ''g''), 1 \<mapsto> (1, ''b1'')], height := 2\<rparr>))
        \<lparr>msgIn := \<lparr>cap = 16, buf = [\<lparr>Type = PREPARE, Block = (1, ''b1''), Txs = [], From = 3\<rparr>]\<rparr>\<rparr>"
    by (simp add: example_replay_pending_def Step_def chan_send_def example_node_def make_chan_def)
  have head: "buf (msgIn example_replay_pending) =
      \<lparr>Type = PREPARE, Block = (1, ''b1''), Txs = [], From = 3\<rparr> # []"
    by (simp add: pending)
  have stale: "finalized (rest example_replay_pending)
      (fst (Block \<lparr>Type = PREPARE, Block = (1::nat, ''b1''), Txs = [] :: nat list, From = 3::nat\<rparr>))
        = Some (1, ''b1'')"
    by (simp add: pending example_node_def)
  from stale_vote_is_discarded
    [where H = quiet_handlers and height_of = fst and live = example_live, OF head _ stale]
  show ?thesis
    using head stale
    by (simp add: pending example_node_def make_chan_def)
qed

text \<open>
  Claim C6. On a node whose timer is set and whose \<^verbatim>\<open>confCh\<close> is empty, \<^verbatim>\<open>SetTimeout d\<close>
  leaves the timer and the round timeout as they are. When the loop of \<^verbatim>\<open>Start\<close> then
  hands the change to the configuration handler of the specification, the whole effect
  is that the round timeout is \<open>d\<close>: the timer keeps the deadline it was armed for. The
  next timer reset, at time \<open>now\<close>, arms it for \<open>now + d\<close>.
\<close>

theorem timeout_change_spares_armed_timer:
  assumes armed: "timer z = Some t"
    and empty: "buf (confCh z) = []"
    and room: "0 < cap (confCh z)"
  shows "timer (snd (SetTimeout d z)) = Some t
       \<and> roundTimeout (snd (SetTimeout d z)) = roundTimeout z
       \<and> run_case (H\<lparr>handleConfigChange := handleConfigChange_spec\<rparr>) FromConfCh (snd (SetTimeout d z))
           = (Returned (), z\<lparr>roundTimeout := d\<rparr>)
       \<and> resetTimer_spec now (z\<lparr>roundTimeout := d\<rparr>)
           = (Returned (), z\<lparr>roundTimeout := d, timer := Some (t\<lparr>deadline := Some (now + sint d)\<rparr>)\<rparr>)"
proof -
  have sent: "snd (SetTimeout d z) =
      z\<lparr>confCh := (confCh z)\<lparr>buf := [\<lparr>cc_typ = confChangeTimeout, cc_data = d\<rparr>]\<rparr>\<rparr>"
    using empty room by (simp add: SetTimeout_def chan_send_def)
  have same_ch: "(confCh z)\<lparr>buf := []\<rparr> = confCh z"
    using empty by simp
  have handled: "run_case (H\<lparr>handleConfigChange := handleConfigChange_spec\<rparr>) FromConfCh
      (snd (SetTimeout d z)) = (Returned (), z\<lparr>roundTimeout := d\<rparr>)"
    unfolding sent by (simp add: chan_recv_def handleConfigChange_spec_def same_ch)
  have reset: "resetTimer_spec now (z\<lparr>roundTimeout := d\<rparr>)
           = (Returned (), z\<lparr>roundTimeout := d, timer := Some (t\<lparr>deadline := Some (now + sint d)\<rparr>)\<rparr>)"
    using armed by (simp add: resetTimer_spec_def)
  show ?thesis
    using armed handled reset by (simp add: sent)
qed

theorem timeout_change_spares_armed_timer_witness:
  "timer example_armed = Some \<lparr>timerC = make_chan 1, deadline = Some 500\<rparr>
   \<and> timer (snd (run_case (quiet_handlers\<lparr>handleConfigChange := handleConfigChange_spec\<rparr>) FromConfCh
         (snd (SetTimeout 2000 example_armed)))) = Some \<lparr>timerC = make_chan 1, deadline = Some 500\<rparr>
   \<and> roundTimeout (snd (run_case (quiet_handlers\<lparr>handleConfigChange := handleConfigChange_spec\<rparr>) FromConfCh
         (snd (SetTimeout 2000 example_armed)))) = 2000
   \<and> timer (snd (resetTimer_spec 700 (example_armed\<lparr>roundTimeout := 2000\<rparr>)))
       = Some \<lparr>timerC = make_chan 1, deadline = Some 2700\<rparr>"
proof -
  have armed: "timer example_armed = Some \<lparr>timerC = make_chan 1, deadline = Some 500\<rparr>"
    by (simp add: example_armed_def)
  have empty: "buf (confCh example_armed) = []"
    by (simp add: example_armed_def example_node_def make_chan_def)
  have room: "0 < cap (confCh example_armed)"
    by (simp add: example_armed_def example_node_def make_chan_def)
  from timeout_change_spares_armed_timer
    [where H = quiet_handlers and d = 2000 and now = 700, OF armed empty room]
  show ?thesis
    using armed by simp
qed

text \<open>
  Claim C3. On a node where a block is finalized at height 0 (with a key pair, an empty
  \<^verbatim>\<open>msgIn\<close> and room on the broadcast queue), a further \<^verbatim>\<open>SetGenesis\<close> call returns its
  future with its \<^verbatim>\<open>BOOTSTRAP\<close> message alone on \<^verbatim>\<open>msgIn\<close> and the round state untouched.
  When the loop of \<^verbatim>\<open>Start\<close> then hands that message to the message handler of the
  specification, the handler returns and ignores it: the node is as it was before the
  call, but for the future registered and the message on the broadcast queue. The
  block finalized at height 0 is the same, nothing is enqueued on \<^verbatim>\<open>exec\<close>, and the
  blockchain handle and the consensus state are unchanged. The same message is ignored
  whenever it is handled on a node that has a block finalized at height 0.
\<close>

theorem second_genesis_is_ignored:
  assumes genesis: "finalized (rest z) 0 = Some g"
    and key: "kp z = Some k"
    and empty: "buf (msgIn z) = []"
    and room_in: "0 < cap (msgIn z)"
    and room_out: "length (buf (msgBcast z)) < cap (msgBcast z)"
  shows "fst (SetGenesis A blk txs z) = Returned (fst (A txs (futs z)))
       \<and> buf (msgIn (snd (SetGenesis A blk txs z))) = [bootstrap_msg k blk txs]
       \<and> rest (snd (SetGenesis A blk txs z)) = rest z
       \<and> run_case (H\<lparr>handleMessage := handleMessage_spec height_of live\<rparr>) FromMsgIn
             (snd (SetGenesis A blk txs z))
           = (Returned (),
              z\<lparr>futs := snd (A txs (futs z)),
                msgBcast := enq (bootstrap_msg k blk txs) (msgBcast z)\<rparr>)
       \<and> finalized (rest (snd (run_case (H\<lparr>handleMessage := handleMessage_spec height_of live\<rparr>)
             FromMsgIn (snd (SetGenesis A blk txs z))))) 0 = Some g
       \<and> exec (snd (run_case (H\<lparr>handleMessage := handleMessage_spec height_of live\<rparr>)
             FromMsgIn (snd (SetGenesis A blk txs z)))) = exec z
       \<and> bc (snd (run_case (H\<lparr>handleMessage := handleMessage_spec height_of live\<rparr>)
             FromMsgIn (snd (SetGenesis A blk txs z)))) = bc z
       \<and> consensus_state (snd (run_case (H\<lparr>handleMessage := handleMessage_spec height_of live\<rparr>)
             FromMsgIn (snd (SetGenesis A blk txs z)))) = consensus_state z
       \<and> (\<forall>y q b. buf (msgIn y) = bootstrap_msg k blk txs # q \<longrightarrow> finalized (rest y) 0 = Some b
             \<longrightarrow> run_case (H\<lparr>handleMessage := handleMessage_spec height_of live\<rparr>) FromMsgIn y
                   = (Returned (), y\<lparr>msgIn := (msgIn y)\<lparr>buf := q\<rparr>\<rparr>))"
proof -
  let ?m = "bootstrap_msg k blk txs"
  let ?H = "H\<lparr>handleMessage := handleMessage_spec height_of live\<rparr>"
  have room: "length (buf (msgIn z)) < cap (msgIn z)"
    using empty room_in by simp
  have called: "SetGenesis A blk txs z =
          (Returned (fst (A txs (futs z))),
           z\<lparr>futs := snd (A txs (futs z)), msgIn := (msgIn z)\<lparr>buf := [?m]\<rparr>,
             msgBcast := enq ?m (msgBcast z)\<rparr>)"
    using key empty chan_send_room [OF room, of ?m] chan_send_room [OF room_out, of ?m]
    by (simp add: SetGenesis_def Let_def broadcast_def bootstrap_msg_def enq_def
        split: prod.splits)
  have same_ch: "(msgIn z)\<lparr>buf := []\<rparr> = msgIn z"
    using empty by simp
  have handled: "run_case ?H FromMsgIn (snd (SetGenesis A blk txs z))
           = (Returned (), z\<lparr>futs := snd (A txs (futs z)), msgBcast := enq ?m (msgBcast z)\<rparr>)"
    using genesis
    by (simp add: called chan_recv_def handleMessage_spec_def bootstrap_msg_def same_ch)
  have anywhere: "run_case ?H FromMsgIn y = (Returned (), y\<lparr>msgIn := (msgIn y)\<lparr>buf := q\<rparr>\<rparr>)"
    if "buf (msgIn y) = ?m # q" and "finalized (rest y) 0 = Some b" for y q b
    using that by (simp add: chan_recv_Cons handleMessage_spec_def bootstrap_msg_def)
  have first: "fst (SetGenesis A blk txs z) = Returned (fst (A txs (futs z)))
       \<and> buf (msgIn (snd (SetGenesis A blk txs z))) = [?m]
       \<and> rest (snd (SetGenesis A blk txs z)) = rest z"
    by (simp add: called)
  have after: "finalized (rest (snd (run_case ?H FromMsgIn (snd (SetGenesis A blk txs z))))) 0 = Some g
       \<and> exec (snd (run_case ?H FromMsgIn (snd (SetGenesis A blk txs z)))) = exec z
       \<and> bc (snd (run_case ?H FromMsgIn (snd (SetGenesis A blk txs z)))) = bc z
       \<and> consensus_state (snd (run_case ?H FromMsgIn (snd (SetGenesis A blk txs z))))
           = consensus_state z"
    unfolding handled using genesis by (simp add: consensus_state_def)
  show ?thesis
    using first handled after anywhere by blast
qed

theorem second_genesis_is_ignored_witness:
  "finalized (rest example_with_genesis) 0 = Some (0, ''g'')
   \<and> fst (SetGenesis example_registry (0, ''other'') [9] example_with_genesis) = Returned 0
   \<and> buf (msgIn (snd (SetGenesis example_registry (0, ''other'') [9] example_with_genesis))) =
       [\<lparr>Type = BOOTSTRAP, Block = (0, ''other''), Txs = [9], From = 7\<rparr>]
   \<and> fst (run_case (quiet_handlers\<lparr>handleMessage := handleMessage_spec fst example_live\<rparr>) FromMsgIn
         (snd (SetGenesis example_registry (0, ''other'') [9] example_with_genesis))) = Returned ()
   \<and> finalized (rest (snd (run_case (quiet_handlers\<lparr>handleMessage := handleMessage_spec fst example_live\<rparr>)
         FromMsgIn (snd (SetGenesis example_registry (0, ''other'') [9] example_with_genesis))))) 0
       = Some (0, ''g'')
   \<and> buf (exec (snd (run_case (quiet_handlers\<lparr>handleMessage := handleMessage_spec fst example_live\<rparr>)
         FromMsgIn (snd (SetGenesis example_registry (0, ''other'') [9] example_with_genesis))))) = []
   \<and> buf (msgIn (snd (run_case (quiet_handlers\<lparr>handleMessage := handleMessage_spec fst example_live\<rparr>)
         FromMsgIn (snd (SetGenesis example_registry (0, ''other'') [9] example_with_genesis))))) = []"
proof -
  have genesis: "finalized (rest example_with_genesis) 0 = Some (0, ''g'')"
    by (simp add: example_with_genesis_def example_node_def)
  have key: "kp example_with_genesis = Some \<lparr>PublicKey = 7\<rparr>"
    by (simp add: example_with_genesis_def example_node_def)
  have empty: "buf (msgIn example_with_genesis) = []"
    by (simp add: example_with_genesis_def example_node_def make_chan_def)
  have room_in: "0 < cap (msgIn example_with_genesis)"
    by (simp add: example_with_genesis_def example_node_def make_chan_def)
  have room_out: "length (buf (msgBcast example_with_genesis)) < cap (msgBcast example_with_genesis)"
    by (simp add: example_with_genesis_def example_node_def make_chan_def)
  from second_genesis_is_ignored
    [where H = quiet_handlers and height_of = fst and live = example_live
       and A = example_registry and blk = "(0, ''other'')" and txs = "[9]",
     OF genesis key empty room_in room_out]
  show ?thesis
    using genesis
    by (simp add: bootstrap_msg_def example_registry_def example_with_genesis_def
        example_node_def make_chan_def)
qed

end
